theory Spec2Isabelle
  imports Main "HOL-Library.Sublist"
begin

section \<open>The Mixpanel client of \<^verbatim>\<open>mixpanel.go\<close>\<close>

text \<open>
  The package is one file: six public operations build a request object (a Go
  \<^verbatim>\<open>map[string]interface{}\<close>) and hand it to the private \<^verbatim>\<open>sendPost\<close>, which wraps it
  in a one-element slice, marshals it to JSON, posts it and compares the response body
  with the text \<^verbatim>\<open>1\<close>.

  What the package takes from its surroundings is collected in a record \<open>world\<close>:
  \<^verbatim>\<open>json.Marshal\<close>, the package-default HTTP client behind \<^verbatim>\<open>http.Post\<close>, and the
  memory that \<^verbatim>\<open>*time.Time\<close> pointers point into. Every theorem holds for every world.
\<close>

subsection \<open>Go values\<close>

text \<open>
  The values an \<^verbatim>\<open>interface{}\<close> holds here. A Go map is an association list with the
  assignment \<^verbatim>\<open>m[k] = v\<close> as \<open>assign\<close> and the lookup as \<open>map_of\<close>; the order of the list
  is the order in which \<^verbatim>\<open>range\<close> happens to visit the entries, which Go leaves open, so
  a statement about every list is a statement about every iteration order. \<open>GChan\<close>
  stands for the values \<^verbatim>\<open>encoding/json\<close> refuses (channels, functions, complex numbers).
\<close>

datatype gvalue =
    GNil
  | GBool bool
  | GInt int
  | GString string
  | GSlice "gvalue list"
  | GMap "(string \<times> gvalue) list"
  | GChan

type_synonym gmap = "(string \<times> gvalue) list"

primrec assign :: "string \<Rightarrow> gvalue \<Rightarrow> gmap \<Rightarrow> gmap" where
  "assign k v [] = [(k, v)]"
| "assign k v (p # ps) = (if fst p = k then (k, v) # ps else p # assign k v ps)"

subsection \<open>Times and pointers to them\<close>

text \<open>
  A \<^verbatim>\<open>time.Time\<close> is used only through \<^verbatim>\<open>Unix()\<close>, so it is represented by that number.
  A \<^verbatim>\<open>*time.Time\<close> is \<open>None\<close> for \<^verbatim>\<open>nil\<close> or \<open>Some a\<close> for the address \<open>a\<close>; the code
  compares such pointers by identity with the package variable \<^verbatim>\<open>IgnoreTime\<close>, which is
  the address of one fixed \<^verbatim>\<open>time.Time\<close>.
\<close>

datatype Time = Time (Unix: int)

type_synonym addr = nat

definition IgnoreTime :: "addr option" where
  "IgnoreTime = Some 0"

subsection \<open>Structs\<close>

record Response =
  StatusCode :: int
  BodyBytes :: string
  BodyReadErr :: "string option"

text \<open>
  \<open>BodyBytes\<close> and \<open>BodyReadErr\<close> are what \<^verbatim>\<open>ioutil.ReadAll(resp.Body)\<close> returns: the bytes
  read and the error that ended the reading, if any.
\<close>

definition ioutil_ReadAll :: "Response \<Rightarrow> string \<times> string option" where
  "ioutil_ReadAll r = (BodyBytes r, BodyReadErr r)"

record ErrTrackFailed =
  Body :: string
  Resp :: "Response option"

record MixpanelError =
  URL :: string
  Err :: ErrTrackFailed

definition ErrTrackFailed_Error :: "ErrTrackFailed \<Rightarrow> string" where
  "ErrTrackFailed_Error err = ''Mixpanel did not return 1 when tracking: '' @ Body err"

definition MixpanelError_Cause :: "MixpanelError \<Rightarrow> ErrTrackFailed" where
  "MixpanelError_Cause err = Err err"

definition MixpanelError_Error :: "MixpanelError \<Rightarrow> string" where
  "MixpanelError_Error err = ''mixpanel: '' @ ErrTrackFailed_Error (Err err)"

record request =
  req_url :: string
  req_contentType :: string
  req_body :: string

text \<open>
  An HTTP client is what its \<^verbatim>\<open>Post\<close> answers: the pair \<^verbatim>\<open>(resp, err)\<close>, either of which
  may be \<^verbatim>\<open>nil\<close>.
\<close>

type_synonym http_client = "request \<Rightarrow> Response option \<times> string option"

record mixpanel =
  Client :: "http_client option"
  Token :: string
  ApiURL :: string

text \<open>
  \<^verbatim>\<open>Event\<close> and \<^verbatim>\<open>Update\<close> are two structs with the same three fields \<^verbatim>\<open>IP\<close>,
  \<^verbatim>\<open>Timestamp\<close> and \<^verbatim>\<open>Properties\<close>; \<^verbatim>\<open>Update\<close> has \<^verbatim>\<open>Operation\<close> as well. So that both
  keep the field names of the source, \<open>Update\<close> is declared as \<open>Event\<close> with one more
  field.
\<close>

record Event =
  IP :: string
  Timestamp :: "addr option"
  Properties :: gmap

record Update = Event +
  Operation :: string

record world =
  Marshal :: "gvalue \<Rightarrow> string + string"
  DefaultClient :: http_client
  heap :: "addr \<Rightarrow> Time"

text \<open>
  \<open>Marshal w v\<close> is \<^verbatim>\<open>json.Marshal(v)\<close>: \<open>Inl\<close> the error text, in which case Go returns
  a \<^verbatim>\<open>nil\<close> byte slice, or \<open>Inr\<close> the bytes. \<^verbatim>\<open>http.Post\<close> posts through the
  package-default client.
\<close>

definition http_Post :: "world \<Rightarrow> string \<Rightarrow> string \<Rightarrow> string \<Rightarrow> Response option \<times> string option" where
  "http_Post w url contentType body =
     DefaultClient w \<lparr>req_url = url, req_contentType = contentType, req_body = body\<rparr>"

subsection \<open>Results\<close>

text \<open>
  An operation returns an \<^verbatim>\<open>error\<close> (\<open>None\<close> for \<^verbatim>\<open>nil\<close>) or panics on a \<^verbatim>\<open>nil\<close> pointer.
  Beside the result the model returns the requests that were posted on the way.
\<close>

datatype outcome = Panic | Return "MixpanelError option"

type_synonym result = "outcome \<times> request list"

subsection \<open>sendPost\<close>

text \<open>
  The three \<open>dropped\<close> bindings are the three calls of \<^verbatim>\<open>wrapErr\<close> whose value the source
  builds and does not return (lines 208, 217 and 223); only the fourth (line 227) is
  behind a \<^verbatim>\<open>return\<close>. \<^verbatim>\<open>defer resp.Body.Close()\<close> reads a field of \<^verbatim>\<open>resp\<close> and so panics
  when \<^verbatim>\<open>resp\<close> is \<^verbatim>\<open>nil\<close>.
\<close>

definition sendPost :: "world \<Rightarrow> mixpanel \<Rightarrow> string \<Rightarrow> gvalue \<Rightarrow> result" where
  "sendPost w m eventType params0 =
     (let params = GSlice [params0];
          url = ApiURL m @ ''/'' @ eventType;
          wrapErr = (\<lambda>err. \<lparr>URL = url, Err = err\<rparr>);
          marshalled = Marshal w params;
          postBody = (case marshalled of Inl e \<Rightarrow> [] | Inr bs \<Rightarrow> bs);
          dropped1 = (case marshalled of
                        Inl e \<Rightarrow> Some (wrapErr \<lparr>Body = e, Resp = None\<rparr>)
                      | Inr bs \<Rightarrow> None);
          responseBody = postBody;
          posted = \<lparr>req_url = url, req_contentType = ''application/json'',
                    req_body = responseBody\<rparr>;
          (resp, err) = http_Post w url ''application/json'' responseBody;
          dropped2 = (case err of
                        Some e \<Rightarrow> Some (wrapErr \<lparr>Body = e, Resp = resp\<rparr>)
                      | None \<Rightarrow> None)
      in case resp of
           None \<Rightarrow> (Panic, [posted])
         | Some r \<Rightarrow>
             (let (body, err) = ioutil_ReadAll r;
                  dropped3 = (case err of
                                Some e \<Rightarrow> Some (wrapErr \<lparr>Body = e, Resp = resp\<rparr>)
                              | None \<Rightarrow> None);
                  sb = body
              in if sb \<noteq> ''1''
                 then (Return (Some (wrapErr \<lparr>Body = ''response not 1'', Resp = resp\<rparr>)),
                       [posted])
                 else (Return None, [posted])))"

subsection \<open>The public operations\<close>

text \<open>
  \<^verbatim>\<open>*Event\<close> and \<^verbatim>\<open>*Update\<close> arguments are options: reading a field of a \<^verbatim>\<open>nil\<close> one
  panics before anything is posted. \<open>Track_props\<close>, \<open>UpdateUser_params\<close> and
  \<open>UnionUser_params\<close> are the bodies of \<^verbatim>\<open>Track\<close> (lines 111 to 124), \<^verbatim>\<open>UpdateUser\<close>
  (lines 137 to 151) and \<^verbatim>\<open>UnionUser\<close> (lines 159 to 164) up to the call of \<^verbatim>\<open>sendPost\<close>,
  named so that statements can speak of the object that is submitted. The \<^verbatim>\<open>range\<close> loop
  of \<^verbatim>\<open>Track\<close> is the \<open>fold\<close>.
\<close>

definition Alias :: "world \<Rightarrow> mixpanel \<Rightarrow> string \<Rightarrow> string \<Rightarrow> result" where
  "Alias w m distinctId newId =
     (let props = [(''token'', GString (Token m)),
                   (''distinct_id'', GString distinctId),
                   (''alias'', GString newId)];
          params = [(''event'', GString ''$create_alias''),
                    (''properties'', GMap props)]
      in sendPost w m ''track'' (GMap params))"

definition Track_props :: "world \<Rightarrow> mixpanel \<Rightarrow> string \<Rightarrow> Event \<Rightarrow> gmap" where
  "Track_props w m distinctId e =
     (let props = [(''token'', GString (Token m)),
                   (''distinct_id'', GString distinctId)];
          props = (if IP e \<noteq> '''' then assign ''ip'' (GString (IP e)) props else props);
          props = (case Timestamp e of
                     None \<Rightarrow> props
                   | Some a \<Rightarrow> assign ''time'' (GInt (Unix (heap w a))) props)
      in fold (\<lambda>(key, val) ps. assign key val ps) (Properties e) props)"

definition Track :: "world \<Rightarrow> mixpanel \<Rightarrow> string \<Rightarrow> string \<Rightarrow> Event option \<Rightarrow> result" where
  "Track w m distinctId eventName ep =
     (case ep of
        None \<Rightarrow> (Panic, [])
      | Some e \<Rightarrow>
          (let props = Track_props w m distinctId e;
               params = [(''event'', GString eventName),
                         (''properties'', GMap props)]
           in sendPost w m ''track'' (GMap params)))"

definition UpdateUser_params :: "world \<Rightarrow> mixpanel \<Rightarrow> string \<Rightarrow> Update \<Rightarrow> gmap" where
  "UpdateUser_params w m distinctId u =
     (let params = [(''$token'', GString (Token m)),
                    (''$distinct_id'', GString distinctId)];
          params = (if IP u \<noteq> '''' then assign ''$ip'' (GString (IP u)) params else params);
          params = (if Timestamp u = IgnoreTime then assign ''$ignore_time'' (GBool True) params
                    else (case Timestamp u of
                            Some a \<Rightarrow> assign ''$time'' (GInt (Unix (heap w a))) params
                          | None \<Rightarrow> params))
      in assign (Operation u) (GMap (Properties u)) params)"

definition UpdateUser :: "world \<Rightarrow> mixpanel \<Rightarrow> string \<Rightarrow> Update option \<Rightarrow> result" where
  "UpdateUser w m distinctId up =
     (case up of
        None \<Rightarrow> (Panic, [])
      | Some u \<Rightarrow> sendPost w m ''engage'' (GMap (UpdateUser_params w m distinctId u)))"

definition UnionUser_params :: "mixpanel \<Rightarrow> string \<Rightarrow> Update \<Rightarrow> gmap" where
  "UnionUser_params m userID u =
     (let params = [(''$token'', GString (Token m)),
                    (''$distinct_id'', GString userID)]
      in assign (Operation u) (GMap (Properties u)) params)"

definition UnionUser :: "world \<Rightarrow> mixpanel \<Rightarrow> string \<Rightarrow> Update option \<Rightarrow> result" where
  "UnionUser w m userID up =
     (case up of
        None \<Rightarrow> (Panic, [])
      | Some u \<Rightarrow> sendPost w m ''engage#profile-union'' (GMap (UnionUser_params m userID u)))"

definition UpdateGroup :: "world \<Rightarrow> mixpanel \<Rightarrow> string \<Rightarrow> string \<Rightarrow> Update option \<Rightarrow> result" where
  "UpdateGroup w m groupKey groupId up =
     (case up of
        None \<Rightarrow> (Panic, [])
      | Some u \<Rightarrow>
          (let params = [(''$token'', GString (Token m)),
                         (''$group_id'', GString groupId),
                         (''$group_key'', GString groupKey)];
               params = assign (Operation u) (GMap (Properties u)) params
           in sendPost w m ''groups'' (GMap params)))"

definition UnionGroup :: "world \<Rightarrow> mixpanel \<Rightarrow> string \<Rightarrow> string \<Rightarrow> Update option \<Rightarrow> result" where
  "UnionGroup w m groupKey groupId up =
     (case up of
        None \<Rightarrow> (Panic, [])
      | Some u \<Rightarrow>
          (let params = [(''$token'', GString (Token m)),
                         (''$group_id'', GString groupId),
                         (''$group_key'', GString groupKey)];
               params = assign (Operation u) (GMap (Properties u)) params
           in sendPost w m ''groups#group-union'' (GMap params)))"

subsection \<open>Constructors\<close>

definition NewFromClient :: "http_client option \<Rightarrow> string \<Rightarrow> string \<Rightarrow> mixpanel" where
  "NewFromClient c token apiURL =
     (let apiURL = (if apiURL = '''' then ''https://api.mixpanel.com'' else apiURL)
      in \<lparr>Client = c, Token = token, ApiURL = apiURL\<rparr>)"

definition New :: "world \<Rightarrow> string \<Rightarrow> string \<Rightarrow> mixpanel" where
  "New w token apiURL = NewFromClient (Some (DefaultClient w)) token apiURL"

subsection \<open>Vocabulary of the statements\<close>

text \<open>
  The request \<open>sendPost\<close> posts (lines 199 to 214 of the source, read off the definition
  above by \<open>sendPost_eq\<close> below), the body \<^verbatim>\<open>ioutil.ReadAll\<close> reads from the response the
  default client delivers to a request, and the shape of the one error that \<open>sendPost\<close>
  returns.
\<close>

definition sendPost_request :: "world \<Rightarrow> mixpanel \<Rightarrow> string \<Rightarrow> gvalue \<Rightarrow> request" where
  "sendPost_request w m eventType params0 =
     \<lparr>req_url = ApiURL m @ ''/'' @ eventType, req_contentType = ''application/json'',
      req_body = (case Marshal w (GSlice [params0]) of Inl e \<Rightarrow> [] | Inr bs \<Rightarrow> bs)\<rparr>"

definition reply_body :: "world \<Rightarrow> request \<Rightarrow> string option" where
  "reply_body w rq = map_option BodyBytes (fst (DefaultClient w rq))"

text \<open>
  The statements about a response speak of the response to the request that the call
  itself posted: \<open>reply_to_call w res\<close> is the body read from the response that the default
  client delivers to the one request in the result \<open>res\<close> of a call, and \<open>None\<close> when the
  call posted nothing or got no response. How the transport answers any other request is
  left open.
\<close>

definition reply_to_call :: "world \<Rightarrow> result \<Rightarrow> string option" where
  "reply_to_call w res = (case snd res of [rq] \<Rightarrow> reply_body w rq | _ \<Rightarrow> None)"

definition replied_other :: "world \<Rightarrow> result \<Rightarrow> bool" where
  "replied_other w res = (case reply_to_call w res of None \<Rightarrow> False | Some b \<Rightarrow> b \<noteq> ''1'')"

definition failed_not_1 :: "string \<Rightarrow> outcome \<Rightarrow> bool" where
  "failed_not_1 url out =
     (case out of
        Return (Some err) \<Rightarrow>
          URL err = url \<and> Body (Err err) = ''response not 1'' \<and>
          Resp (Err err) \<noteq> None \<and>
          sublist ''response not 1'' (ErrTrackFailed_Error (Err err)) \<and>
          sublist ''response not 1'' (MixpanelError_Error err)
      | _ \<Rightarrow> False)"

subsection \<open>Test doubles\<close>

text \<open>
  Concrete worlds for the concrete inputs below. \<open>stub_Marshal\<close> refuses what
  \<^verbatim>\<open>json.Marshal\<close> refuses, a value with a channel in it (\<^verbatim>\<open>UnsupportedTypeError\<close>), and
  answers a fixed text for every other value: no statement below depends on the text.
  \<open>replying\<close> is a transport that answers every request with one status and body,
  \<open>refusing\<close> one that fails to connect, for which \<^verbatim>\<open>http.Post\<close> returns a \<^verbatim>\<open>nil\<close> response.
  In the heap of \<open>stub_world\<close> address 0 holds \<^verbatim>\<open>time.Time{}\<close>, whose \<^verbatim>\<open>Unix()\<close> is
  \<open>-62135596800\<close>.
\<close>

primrec unsupported :: "gvalue \<Rightarrow> bool" where
  "unsupported GNil = False"
| "unsupported (GBool b) = False"
| "unsupported (GInt i) = False"
| "unsupported (GString s) = False"
| "unsupported (GSlice vs) = list_ex id (map unsupported vs)"
| "unsupported (GMap kvs) = list_ex snd (map (map_prod id unsupported) kvs)"
| "unsupported GChan = True"

definition stub_Marshal :: "gvalue \<Rightarrow> string + string" where
  "stub_Marshal v =
     (if unsupported v then Inl ''json: unsupported type: chan int'' else Inr ''[{}]'')"

definition replying :: "int \<Rightarrow> string \<Rightarrow> http_client" where
  "replying code body =
     (\<lambda>rq. (Some \<lparr>StatusCode = code, BodyBytes = body, BodyReadErr = None\<rparr>, None))"

definition refusing :: http_client where
  "refusing = (\<lambda>rq. (None, Some ''dial tcp: connection refused''))"

definition stub_world :: "http_client \<Rightarrow> world" where
  "stub_world c =
     \<lparr>Marshal = stub_Marshal, DefaultClient = c,
      heap = (\<lambda>a. if a = 0 then Time (- 62135596800) else Time 1700000000)\<rparr>"

text \<open>
  \<open>track_only\<close> is a transport whose answer depends on the request: status 200 and body
  \<^verbatim>\<open>1\<close> for a request to the \<^verbatim>\<open>track\<close> endpoint, status 500 and body \<^verbatim>\<open>0\<close> for any other.
\<close>

definition track_only :: http_client where
  "track_only =
     (\<lambda>rq. if req_url rq = ''https://api.mixpanel.com/track''
           then (Some \<lparr>StatusCode = 200, BodyBytes = ''1'', BodyReadErr = None\<rparr>, None)
           else (Some \<lparr>StatusCode = 500, BodyBytes = ''0'', BodyReadErr = None\<rparr>, None))"

text \<open>
  The inputs used at concrete points: a client for the production endpoint, an event
  with one ordinary property, one whose property is named \<^verbatim>\<open>token\<close>, one whose property
  holds a channel, and updates with the operation \<^verbatim>\<open>$set\<close>, with the sentinel and with no
  timestamp, with the operation named \<^verbatim>\<open>$time\<close>, and with a channel.
\<close>

definition client0 :: mixpanel where
  "client0 = NewFromClient None ''tok'' ''''"

definition event0 :: Event where
  "event0 = \<lparr>IP = ''10.0.0.1'', Timestamp = Some 7,
             Properties = [(''plan'', GString ''pro'')]\<rparr>"


definition event_chan :: Event where
  "event_chan = \<lparr>IP = '''', Timestamp = None, Properties = [(''ch'', GChan)]\<rparr>"

definition update0 :: Update where
  "update0 = \<lparr>IP = ''10.0.0.1'', Timestamp = Some 7,
              Properties = [(''plan'', GString ''pro'')], Operation = ''$set''\<rparr>"

definition update_ignore :: Update where
  "update_ignore = \<lparr>IP = '''', Timestamp = IgnoreTime,
                    Properties = [(''plan'', GString ''pro'')], Operation = ''$set''\<rparr>"

definition update_nil :: Update where
  "update_nil = \<lparr>IP = '''', Timestamp = None,
                 Properties = [(''plan'', GString ''pro'')], Operation = ''$set''\<rparr>"

definition update_time_op :: Update where
  "update_time_op = \<lparr>IP = '''', Timestamp = None,
                     Properties = [(''plan'', GString ''pro'')], Operation = ''$time''\<rparr>"

definition update_chan :: Update where
  "update_chan = \<lparr>IP = '''', Timestamp = None, Properties = [(''ch'', GChan)],
                  Operation = ''$set''\<rparr>"

section \<open>Properties\<close>

subsection \<open>Go maps\<close>

lemma map_of_assign: "map_of (assign k v ps) = (map_of ps)(k \<mapsto> v)"
  by (induction ps) auto

lemma keys_assign: "fst ` set (assign k v ps) = insert k (fst ` set ps)"
  by (induction ps) auto

subsection \<open>What sendPost does\<close>

text \<open>
  \<open>sendPost\<close> always posts exactly one request, and its result is decided by the
  response alone: a panic when there is none, \<^verbatim>\<open>nil\<close> when the body read is \<^verbatim>\<open>1\<close>, and
  the error of line 227 otherwise. The errors of \<^verbatim>\<open>json.Marshal\<close>, \<^verbatim>\<open>http.Post\<close> and
  \<^verbatim>\<open>ioutil.ReadAll\<close> occur nowhere in it.
\<close>

lemma sendPost_eq:
  "sendPost w m t p =
     (case fst (DefaultClient w (sendPost_request w m t p)) of
        None \<Rightarrow> Panic
      | Some r \<Rightarrow>
          if BodyBytes r = ''1'' then Return None
          else Return (Some \<lparr>URL = ApiURL m @ ''/'' @ t,
                               Err = \<lparr>Body = ''response not 1'', Resp = Some r\<rparr>\<rparr>),
      [sendPost_request w m t p])"
proof (cases "DefaultClient w (sendPost_request w m t p)")
  case (Pair resp err)
  then show ?thesis
    by (cases resp)
       (simp_all add: sendPost_def sendPost_request_def Let_def http_Post_def
          ioutil_ReadAll_def)
qed

lemma sendPost_outcome:
  "fst (sendPost w m t p) =
     (case reply_body w (sendPost_request w m t p) of
        None \<Rightarrow> Panic
      | Some b \<Rightarrow>
          if b = ''1'' then Return None
          else Return (Some \<lparr>URL = ApiURL m @ ''/'' @ t,
                 Err = \<lparr>Body = ''response not 1'',
                        Resp = fst (DefaultClient w (sendPost_request w m t p))\<rparr>\<rparr>))"
  by (simp add: sendPost_eq reply_body_def split: option.split)

lemma sendPost_ok:
  assumes "\<And>rq. reply_body w rq = Some ''1''"
  shows "fst (sendPost w m t p) = Return None"
  by (simp add: sendPost_outcome assms)

lemma sublist_response_not_1: "sublist ''response not 1'' (pre @ ''response not 1'')"
  by (rule suffix_imp_sublist) (simp add: suffix_def)

lemma sendPost_not_ok:
  assumes "\<And>rq. \<exists>b. reply_body w rq = Some b \<and> b \<noteq> ''1''"
  shows "failed_not_1 (ApiURL m @ ''/'' @ t) (fst (sendPost w m t p))"
proof -
  obtain b where "reply_body w (sendPost_request w m t p) = Some b" and "b \<noteq> ''1''"
    using assms by blast
  then obtain r where r: "fst (DefaultClient w (sendPost_request w m t p)) = Some r"
      "BodyBytes r \<noteq> ''1''"
    by (auto simp: reply_body_def)
  have s1: "sublist ''response not 1''
              (ErrTrackFailed_Error \<lparr>Body = ''response not 1'', Resp = x\<rparr>)" for x
    unfolding ErrTrackFailed_Error_def ErrTrackFailed.simps
    by (rule sublist_response_not_1)
  have s2: "sublist ''response not 1''
              (MixpanelError_Error \<lparr>URL = u, Err = \<lparr>Body = ''response not 1'', Resp = x\<rparr>\<rparr>)"
    for x u
    unfolding MixpanelError_Error_def ErrTrackFailed_Error_def ErrTrackFailed.simps
      MixpanelError.simps append_assoc[symmetric]
    by (rule sublist_response_not_1)
  show ?thesis
    by (simp add: failed_not_1_def sendPost_eq r s1 s2)
qed

text \<open>
  Three consequences used below: with no response the call panics, whatever error the
  transport reported; the only error ever returned says \<^verbatim>\<open>response not 1\<close>; and when
  marshalling succeeds the body posted is the encoding of the one-element slice that
  holds the request object.
\<close>

lemma sendPost_no_response:
  "fst (DefaultClient w (sendPost_request w m t p)) = None \<Longrightarrow>
     fst (sendPost w m t p) = Panic"
  by (simp add: sendPost_eq)

lemma sendPost_error_body:
  "fst (sendPost w m t p) = Return (Some err) \<Longrightarrow> Body (Err err) = ''response not 1''"
  by (auto simp: sendPost_eq split: option.splits if_splits)

lemma sendPost_envelope:
  "Marshal w (GSlice [p]) = Inr bs \<Longrightarrow> map req_body (snd (sendPost w m t p)) = [bs]"
  by (simp add: sendPost_eq sendPost_request_def)

lemma sendPost_same_client:
  "ApiURL m = ApiURL m' \<Longrightarrow> sendPost w m t p = sendPost w m' t p"
  by (simp add: sendPost_eq sendPost_request_def split: option.split)

lemma nil_pointer_panics:
  "Track w m distinctId eventName None = (Panic, [])"
  "UpdateUser w m distinctId None = (Panic, [])"
  "UnionUser w m userID None = (Panic, [])"
  "UpdateGroup w m groupKey groupId None = (Panic, [])"
  "UnionGroup w m groupKey groupId None = (Panic, [])"
  by (simp_all add: Track_def UpdateUser_def UnionUser_def UpdateGroup_def UnionGroup_def)

subsection \<open>The response to a call\<close>

lemma reply_to_call_sendPost:
  "reply_to_call w (sendPost w m t p) = reply_body w (sendPost_request w m t p)"
  by (simp add: reply_to_call_def sendPost_eq)

lemma reply_to_call_no_request: "reply_to_call w (out, []) = None"
  by (simp add: reply_to_call_def)

lemma sendPost_call_ok:
  "reply_to_call w (sendPost w m t p) = Some ''1'' \<Longrightarrow> fst (sendPost w m t p) = Return None"
  by (simp add: reply_to_call_sendPost sendPost_outcome)

lemma sendPost_call_not_ok:
  assumes "replied_other w (sendPost w m t p)"
  shows "failed_not_1 (ApiURL m @ ''/'' @ t) (fst (sendPost w m t p))"
proof -
  from assms obtain r where r: "fst (DefaultClient w (sendPost_request w m t p)) = Some r"
      "BodyBytes r \<noteq> ''1''"
    by (auto simp: replied_other_def reply_to_call_sendPost reply_body_def
        split: option.splits)
  have s1: "sublist ''response not 1''
              (ErrTrackFailed_Error \<lparr>Body = ''response not 1'', Resp = x\<rparr>)" for x
    unfolding ErrTrackFailed_Error_def ErrTrackFailed.simps
    by (rule sublist_response_not_1)
  have s2: "sublist ''response not 1''
              (MixpanelError_Error \<lparr>URL = u, Err = \<lparr>Body = ''response not 1'', Resp = x\<rparr>\<rparr>)"
    for x u
    unfolding MixpanelError_Error_def ErrTrackFailed_Error_def ErrTrackFailed.simps
      MixpanelError.simps append_assoc[symmetric]
    by (rule sublist_response_not_1)
  show ?thesis
    by (simp add: failed_not_1_def sendPost_eq r s1 s2)
qed

lemma replied_other_no_request: "\<not> replied_other w (out, [])"
  by (simp add: replied_other_def reply_to_call_def)

subsection \<open>The range loop of Track\<close>

lemma fold_assign_other:
  "k \<notin> fst ` set kvs \<Longrightarrow>
     map_of (fold (\<lambda>(key, val) ps. assign key val ps) kvs props) k = map_of props k"
  by (induction kvs arbitrary: props) (auto simp: map_of_assign)


subsection \<open>The test doubles\<close>

lemma reply_body_replying: "reply_body (stub_world (replying c b)) rq = Some b"
  by (simp add: reply_body_def stub_world_def replying_def)

section \<open>The claims\<close>

subsection \<open>Failures before the response is read\<close>

text \<open>
  Claim C1: when the HTTP POST itself fails, the operation returns a submission-failed
  error that wraps the transport error, inside an outer error whose URL is the base URL,
  a slash and the sub-path.

  The code does not do this. Line 217 builds that error and drops it; the next line reads
  \<^verbatim>\<open>resp.Body\<close> of the \<^verbatim>\<open>nil\<close> response and panics. Here \<^verbatim>\<open>Track\<close> runs against a transport
  that refuses the connection: the request is posted to the right URL, the transport
  answers \<^verbatim>\<open>(nil, err)\<close>, and the call panics instead of returning.
\<close>

theorem Track_transport_error_panics:
  "DefaultClient (stub_world refusing)
     \<lparr>req_url = ''https://api.mixpanel.com/track'', req_contentType = ''application/json'',
      req_body = ''[{}]''\<rparr> = (None, Some ''dial tcp: connection refused'') \<and>
   Track (stub_world refusing) client0 ''u1'' ''signup'' (Some event0) =
     (Panic,
      [\<lparr>req_url = ''https://api.mixpanel.com/track'', req_contentType = ''application/json'',
        req_body = ''[{}]''\<rparr>])"
  by (simp add: Track_def Track_props_def Let_def sendPost_eq sendPost_request_def
      stub_world_def refusing_def stub_Marshal_def client0_def NewFromClient_def event0_def)

text \<open>
  Claim C2: when the JSON serialization of the payload fails, the operation returns a
  submission-failed error with the serialization error text and no response, and the
  HTTP POST is not reached.

  The code does not do this. Line 208 builds that error and drops it, and the call goes
  on with a \<^verbatim>\<open>nil\<close> body. Here the event has a channel among its properties, so
  marshalling fails; the request is posted all the same, with an empty body, and since
  the transport answers \<^verbatim>\<open>1\<close> the call returns \<^verbatim>\<open>nil\<close>.
\<close>

theorem Track_marshal_error_returns_nil:
  "Marshal (stub_world (replying 200 ''1''))
     (GSlice [GMap [(''event'', GString ''signup''),
                    (''properties'',
                     GMap (Track_props (stub_world (replying 200 ''1'')) client0 ''u1''
                             event_chan))]])
     = Inl ''json: unsupported type: chan int'' \<and>
   Track (stub_world (replying 200 ''1'')) client0 ''u1'' ''signup'' (Some event_chan) =
     (Return None,
      [\<lparr>req_url = ''https://api.mixpanel.com/track'', req_contentType = ''application/json'',
        req_body = []\<rparr>])"
  by (simp add: Track_def Track_props_def Let_def sendPost_eq sendPost_request_def
      stub_world_def replying_def stub_Marshal_def client0_def NewFromClient_def
      event_chan_def)

text \<open>
  Claim C9: for every operation the body of the HTTP request is a JSON array with
  exactly one element, the request object of the operation.

  When marshalling succeeds this is so (\<open>sendPost_envelope\<close>). When it fails the request
  is still sent, by the dropped error of line 208, and its body is empty: here
  \<^verbatim>\<open>UpdateUser\<close> with a channel among the properties posts a request with no body at all.
\<close>

theorem UpdateUser_marshal_error_posts_empty_body:
  "Marshal (stub_world (replying 200 ''1''))
     (GSlice [GMap (UpdateUser_params (stub_world (replying 200 ''1'')) client0 ''u1''
                      update_chan)])
     = Inl ''json: unsupported type: chan int'' \<and>
   map req_body
     (snd (UpdateUser (stub_world (replying 200 ''1'')) client0 ''u1'' (Some update_chan)))
     = [[]]"
  by (simp add: UpdateUser_def UpdateUser_params_def Let_def sendPost_eq sendPost_request_def
      stub_world_def stub_Marshal_def update_chan_def IgnoreTime_def)

subsection \<open>The success marker\<close>

text \<open>
  Claim C3: for each of \<^verbatim>\<open>Track\<close>, \<^verbatim>\<open>UpdateUser\<close>, \<^verbatim>\<open>UnionUser\<close>, \<^verbatim>\<open>UpdateGroup\<close>,
  \<^verbatim>\<open>UnionGroup\<close> and \<^verbatim>\<open>Alias\<close>, if the transport delivers to the request of the call a
  response whose body is exactly the character \<^verbatim>\<open>1\<close>, the operation returns \<^verbatim>\<open>nil\<close>. Nothing
  is asked of the status code, of the error beside the response, of the marshalling or
  of the answers to other requests. The event or update may be any pointer: a call on a
  \<^verbatim>\<open>nil\<close> one posts nothing (\<open>nil_pointer_panics\<close>), so no response is delivered to it.
\<close>

theorem body_1_returns_nil:
  "(reply_to_call w (Track w m distinctId eventName e) = Some ''1'' \<longrightarrow>
      fst (Track w m distinctId eventName e) = Return None) \<and>
   (reply_to_call w (UpdateUser w m distinctId u) = Some ''1'' \<longrightarrow>
      fst (UpdateUser w m distinctId u) = Return None) \<and>
   (reply_to_call w (UnionUser w m userID u) = Some ''1'' \<longrightarrow>
      fst (UnionUser w m userID u) = Return None) \<and>
   (reply_to_call w (UpdateGroup w m groupKey groupId u) = Some ''1'' \<longrightarrow>
      fst (UpdateGroup w m groupKey groupId u) = Return None) \<and>
   (reply_to_call w (UnionGroup w m groupKey groupId u) = Some ''1'' \<longrightarrow>
      fst (UnionGroup w m groupKey groupId u) = Return None) \<and>
   (reply_to_call w (Alias w m distinctId newId) = Some ''1'' \<longrightarrow>
      fst (Alias w m distinctId newId) = Return None)"
  by (cases e; cases u)
     (simp_all add: Track_def UpdateUser_def UnionUser_def UpdateGroup_def UnionGroup_def
        Alias_def Let_def reply_to_call_no_request sendPost_call_ok)

text \<open>
  At concrete points: \<^verbatim>\<open>Track\<close> and \<^verbatim>\<open>Alias\<close> against the transport that answers \<^verbatim>\<open>1\<close> to the
  \<^verbatim>\<open>track\<close> endpoint only, the other four against one that answers \<^verbatim>\<open>1\<close> to everything.
\<close>

theorem body_1_returns_nil_witness:
  "(reply_to_call (stub_world track_only)
      (Track (stub_world track_only) client0 ''u1'' ''signup'' (Some event0)) = Some ''1'' \<and>
    fst (Track (stub_world track_only) client0 ''u1'' ''signup'' (Some event0))
      = Return None) \<and>
   (reply_to_call (stub_world (replying 200 ''1''))
      (UpdateUser (stub_world (replying 200 ''1'')) client0 ''u1'' (Some update0)) = Some ''1'' \<and>
    fst (UpdateUser (stub_world (replying 200 ''1'')) client0 ''u1'' (Some update0))
      = Return None) \<and>
   (reply_to_call (stub_world (replying 200 ''1''))
      (UnionUser (stub_world (replying 200 ''1'')) client0 ''u2'' (Some update0)) = Some ''1'' \<and>
    fst (UnionUser (stub_world (replying 200 ''1'')) client0 ''u2'' (Some update0))
      = Return None) \<and>
   (reply_to_call (stub_world (replying 200 ''1''))
      (UpdateGroup (stub_world (replying 200 ''1'')) client0 ''company'' ''g1'' (Some update0))
      = Some ''1'' \<and>
    fst (UpdateGroup (stub_world (replying 200 ''1'')) client0 ''company'' ''g1'' (Some update0))
      = Return None) \<and>
   (reply_to_call (stub_world (replying 200 ''1''))
      (UnionGroup (stub_world (replying 200 ''1'')) client0 ''company'' ''g1'' (Some update0))
      = Some ''1'' \<and>
    fst (UnionGroup (stub_world (replying 200 ''1'')) client0 ''company'' ''g1'' (Some update0))
      = Return None) \<and>
   (reply_to_call (stub_world track_only)
      (Alias (stub_world track_only) client0 ''u1'' ''u2'') = Some ''1'' \<and>
    fst (Alias (stub_world track_only) client0 ''u1'' ''u2'') = Return None)"
proof -
  have track: "reply_to_call (stub_world track_only)
      (Track (stub_world track_only) client0 ''u1'' ''signup'' (Some event0)) = Some ''1''"
    and alias_call: "reply_to_call (stub_world track_only)
      (Alias (stub_world track_only) client0 ''u1'' ''u2'') = Some ''1''"
    by (simp_all add: Track_def Alias_def Let_def reply_to_call_sendPost reply_body_def
        sendPost_request_def stub_world_def track_only_def client0_def NewFromClient_def)
  have others:
    "reply_to_call (stub_world (replying 200 ''1''))
      (UpdateUser (stub_world (replying 200 ''1'')) client0 ''u1'' (Some update0)) = Some ''1''"
    "reply_to_call (stub_world (replying 200 ''1''))
      (UnionUser (stub_world (replying 200 ''1'')) client0 ''u2'' (Some update0)) = Some ''1''"
    "reply_to_call (stub_world (replying 200 ''1''))
      (UpdateGroup (stub_world (replying 200 ''1'')) client0 ''company'' ''g1'' (Some update0))
      = Some ''1''"
    "reply_to_call (stub_world (replying 200 ''1''))
      (UnionGroup (stub_world (replying 200 ''1'')) client0 ''company'' ''g1'' (Some update0))
      = Some ''1''"
    by (simp_all add: UpdateUser_def UnionUser_def UpdateGroup_def UnionGroup_def Let_def
        reply_to_call_sendPost reply_body_replying)
  show ?thesis
    using track alias_call others
      body_1_returns_nil [where w = "stub_world track_only" and m = client0
        and distinctId = "''u1''" and eventName = "''signup''" and e = "Some event0"
        and newId = "''u2''"]
      body_1_returns_nil [where w = "stub_world (replying 200 ''1'')" and m = client0
        and distinctId = "''u1''" and userID = "''u2''" and groupKey = "''company''"
        and groupId = "''g1''" and u = "Some update0"]
    by simp
qed

text \<open>
  Claim C4: for each operation, if the transport delivers to the request of the call a
  response whose body is any text other than \<^verbatim>\<open>1\<close>, whatever the status code, the
  operation returns a submission-failed error whose message contains \<^verbatim>\<open>response not 1\<close>,
  wrapped in an outer error that records the full URL of the request. \<open>failed_not_1 url\<close>
  says all of that of an outcome, and that the error carries the response.
\<close>

theorem body_not_1_returns_wrapped_error:
  "(replied_other w (Track w m distinctId eventName e) \<longrightarrow>
      failed_not_1 (ApiURL m @ ''/track'') (fst (Track w m distinctId eventName e))) \<and>
   (replied_other w (UpdateUser w m distinctId u) \<longrightarrow>
      failed_not_1 (ApiURL m @ ''/engage'') (fst (UpdateUser w m distinctId u))) \<and>
   (replied_other w (UnionUser w m userID u) \<longrightarrow>
      failed_not_1 (ApiURL m @ ''/engage#profile-union'') (fst (UnionUser w m userID u))) \<and>
   (replied_other w (UpdateGroup w m groupKey groupId u) \<longrightarrow>
      failed_not_1 (ApiURL m @ ''/groups'') (fst (UpdateGroup w m groupKey groupId u))) \<and>
   (replied_other w (UnionGroup w m groupKey groupId u) \<longrightarrow>
      failed_not_1 (ApiURL m @ ''/groups#group-union'')
        (fst (UnionGroup w m groupKey groupId u))) \<and>
   (replied_other w (Alias w m distinctId newId) \<longrightarrow>
      failed_not_1 (ApiURL m @ ''/track'') (fst (Alias w m distinctId newId)))"
  using sendPost_call_not_ok [of w m]
  by (cases e; cases u)
     (simp_all add: Track_def UpdateUser_def UnionUser_def UpdateGroup_def UnionGroup_def
        Alias_def Let_def replied_other_no_request)

text \<open>
  At concrete points: the four profile operations against the transport that answers
  \<^verbatim>\<open>1\<close> to the \<^verbatim>\<open>track\<close> endpoint only, and so \<^verbatim>\<open>0\<close> with status 500 to them; \<^verbatim>\<open>Track\<close> and
  \<^verbatim>\<open>Alias\<close> against one that answers \<^verbatim>\<open>0\<close> with status 200.
\<close>

theorem body_not_1_returns_wrapped_error_witness:
  "(replied_other (stub_world (replying 200 ''0''))
      (Track (stub_world (replying 200 ''0'')) client0 ''u1'' ''signup'' (Some event0)) \<and>
    failed_not_1 ''https://api.mixpanel.com/track''
      (fst (Track (stub_world (replying 200 ''0'')) client0 ''u1'' ''signup'' (Some event0)))) \<and>
   (replied_other (stub_world track_only)
      (UpdateUser (stub_world track_only) client0 ''u1'' (Some update0)) \<and>
    failed_not_1 ''https://api.mixpanel.com/engage''
      (fst (UpdateUser (stub_world track_only) client0 ''u1'' (Some update0)))) \<and>
   (replied_other (stub_world track_only)
      (UnionUser (stub_world track_only) client0 ''u2'' (Some update0)) \<and>
    failed_not_1 ''https://api.mixpanel.com/engage#profile-union''
      (fst (UnionUser (stub_world track_only) client0 ''u2'' (Some update0)))) \<and>
   (replied_other (stub_world track_only)
      (UpdateGroup (stub_world track_only) client0 ''company'' ''g1'' (Some update0)) \<and>
    failed_not_1 ''https://api.mixpanel.com/groups''
      (fst (UpdateGroup (stub_world track_only) client0 ''company'' ''g1'' (Some update0)))) \<and>
   (replied_other (stub_world track_only)
      (UnionGroup (stub_world track_only) client0 ''company'' ''g1'' (Some update0)) \<and>
    failed_not_1 ''https://api.mixpanel.com/groups#group-union''
      (fst (UnionGroup (stub_world track_only) client0 ''company'' ''g1'' (Some update0)))) \<and>
   (replied_other (stub_world (replying 200 ''0''))
      (Alias (stub_world (replying 200 ''0'')) client0 ''u1'' ''u2'') \<and>
    failed_not_1 ''https://api.mixpanel.com/track''
      (fst (Alias (stub_world (replying 200 ''0'')) client0 ''u1'' ''u2'')))"
proof -
  have url: "ApiURL client0 = ''https://api.mixpanel.com''"
    by (simp add: client0_def NewFromClient_def)
  have track: "replied_other (stub_world (replying 200 ''0''))
      (Track (stub_world (replying 200 ''0'')) client0 ''u1'' ''signup'' (Some event0))"
    and alias_call: "replied_other (stub_world (replying 200 ''0''))
      (Alias (stub_world (replying 200 ''0'')) client0 ''u1'' ''u2'')"
    by (simp_all add: Track_def Alias_def Let_def replied_other_def reply_to_call_sendPost
        reply_body_replying)
  have others:
    "replied_other (stub_world track_only)
      (UpdateUser (stub_world track_only) client0 ''u1'' (Some update0))"
    "replied_other (stub_world track_only)
      (UnionUser (stub_world track_only) client0 ''u2'' (Some update0))"
    "replied_other (stub_world track_only)
      (UpdateGroup (stub_world track_only) client0 ''company'' ''g1'' (Some update0))"
    "replied_other (stub_world track_only)
      (UnionGroup (stub_world track_only) client0 ''company'' ''g1'' (Some update0))"
    by (simp_all add: UpdateUser_def UnionUser_def UpdateGroup_def UnionGroup_def Let_def
        replied_other_def reply_to_call_sendPost reply_body_def sendPost_request_def
        stub_world_def track_only_def url)
  show ?thesis
    using track alias_call others
      body_not_1_returns_wrapped_error [where w = "stub_world (replying 200 ''0'')"
        and m = client0 and distinctId = "''u1''" and eventName = "''signup''"
        and e = "Some event0" and newId = "''u2''"]
      body_not_1_returns_wrapped_error [where w = "stub_world track_only" and m = client0
        and distinctId = "''u1''" and userID = "''u2''" and groupKey = "''company''"
        and groupId = "''g1''" and u = "Some update0"]
    by (simp add: url)
qed

subsection \<open>The properties of an event\<close>



text \<open>
  Claim C7: for an event with a non-nil \<^verbatim>\<open>Timestamp\<close> and no custom property named
  \<^verbatim>\<open>time\<close>, the properties object that \<^verbatim>\<open>Track\<close> submits has under \<^verbatim>\<open>time\<close> the epoch seconds
  of the time the pointer points to.
\<close>

theorem Track_time_is_epoch_seconds:
  assumes "Timestamp e = Some a" and "''time'' \<notin> fst ` set (Properties e)"
  shows "Track w m distinctId eventName (Some e) =
           sendPost w m ''track''
             (GMap [(''event'', GString eventName),
                    (''properties'', GMap (Track_props w m distinctId e))]) \<and>
         map_of (Track_props w m distinctId e) ''time'' = Some (GInt (Unix (heap w a)))"
  using assms
  by (simp add: Track_def Track_props_def Let_def fold_assign_other map_of_assign)

theorem Track_time_is_epoch_seconds_witness:
  "Track (stub_world (replying 200 ''1'')) client0 ''u1'' ''signup'' (Some event0) =
     sendPost (stub_world (replying 200 ''1'')) client0 ''track''
       (GMap [(''event'', GString ''signup''),
              (''properties'',
               GMap (Track_props (stub_world (replying 200 ''1'')) client0 ''u1'' event0))]) \<and>
   map_of (Track_props (stub_world (replying 200 ''1'')) client0 ''u1'' event0) ''time''
     = Some (GInt 1700000000)"
  using Track_time_is_epoch_seconds
          [of event0 7 "stub_world (replying 200 ''1'')" client0 "''u1''" "''signup''"]
  by (simp add: event0_def stub_world_def)

subsection \<open>Profile updates\<close>

text \<open>
  Claim C6, as stated, says of every \<^verbatim>\<open>UpdateUser\<close> call that a \<^verbatim>\<open>nil\<close> timestamp leaves the
  payload without a time field. The operation key is written last, under whatever name
  the caller gives, so an update whose \<^verbatim>\<open>Operation\<close> is \<^verbatim>\<open>$time\<close> has a \<^verbatim>\<open>$time\<close> field with a
  \<^verbatim>\<open>nil\<close> timestamp: the field holds the properties.
\<close>

theorem UpdateUser_operation_named_time_counterexample:
  "Timestamp update_time_op = None \<and>
   UpdateUser (stub_world (replying 200 ''1'')) client0 ''u1'' (Some update_time_op) =
     sendPost (stub_world (replying 200 ''1'')) client0 ''engage''
       (GMap (UpdateUser_params (stub_world (replying 200 ''1'')) client0 ''u1''
                update_time_op)) \<and>
   map_of (UpdateUser_params (stub_world (replying 200 ''1'')) client0 ''u1'' update_time_op)
     ''$time'' = Some (GMap [(''plan'', GString ''pro'')])"
  by (simp add: UpdateUser_def UpdateUser_params_def update_time_op_def IgnoreTime_def Let_def)

text \<open>
  Claim C6, amended: for every \<^verbatim>\<open>UpdateUser\<close> call whose \<^verbatim>\<open>Operation\<close> is neither \<^verbatim>\<open>$time\<close>
  nor \<^verbatim>\<open>$ignore_time\<close>: if the \<^verbatim>\<open>Timestamp\<close> is the \<^verbatim>\<open>IgnoreTime\<close> pointer, the payload has
  \<^verbatim>\<open>$ignore_time\<close> set to true and no \<^verbatim>\<open>$time\<close>; if it is \<^verbatim>\<open>nil\<close>, the payload has neither;
  otherwise the payload has \<^verbatim>\<open>$time\<close> equal to the epoch seconds of the time pointed to
  and no \<^verbatim>\<open>$ignore_time\<close>.
\<close>

theorem UpdateUser_timestamp_cases:
  assumes "Operation u \<noteq> ''$time''" and "Operation u \<noteq> ''$ignore_time''"
  shows "UpdateUser w m distinctId (Some u) =
           sendPost w m ''engage'' (GMap (UpdateUser_params w m distinctId u)) \<and>
         (Timestamp u = IgnoreTime \<longrightarrow>
            map_of (UpdateUser_params w m distinctId u) ''$ignore_time'' = Some (GBool True) \<and>
            map_of (UpdateUser_params w m distinctId u) ''$time'' = None) \<and>
         (Timestamp u = None \<longrightarrow>
            map_of (UpdateUser_params w m distinctId u) ''$ignore_time'' = None \<and>
            map_of (UpdateUser_params w m distinctId u) ''$time'' = None) \<and>
         (\<forall>a. Timestamp u = Some a \<and> Timestamp u \<noteq> IgnoreTime \<longrightarrow>
            map_of (UpdateUser_params w m distinctId u) ''$ignore_time'' = None \<and>
            map_of (UpdateUser_params w m distinctId u) ''$time'' =
              Some (GInt (Unix (heap w a))))"
  using assms
  by (auto simp: UpdateUser_def UpdateUser_params_def Let_def map_of_assign IgnoreTime_def)

theorem UpdateUser_timestamp_cases_witness:
  "(map_of (UpdateUser_params (stub_world (replying 200 ''1'')) client0 ''u1'' update_ignore)
      ''$ignore_time'' = Some (GBool True) \<and>
    map_of (UpdateUser_params (stub_world (replying 200 ''1'')) client0 ''u1'' update_ignore)
      ''$time'' = None) \<and>
   (map_of (UpdateUser_params (stub_world (replying 200 ''1'')) client0 ''u1'' update_nil)
      ''$ignore_time'' = None \<and>
    map_of (UpdateUser_params (stub_world (replying 200 ''1'')) client0 ''u1'' update_nil)
      ''$time'' = None) \<and>
   (map_of (UpdateUser_params (stub_world (replying 200 ''1'')) client0 ''u1'' update0)
      ''$ignore_time'' = None \<and>
    map_of (UpdateUser_params (stub_world (replying 200 ''1'')) client0 ''u1'' update0)
      ''$time'' = Some (GInt 1700000000))"
  using UpdateUser_timestamp_cases
          [of update_ignore "stub_world (replying 200 ''1'')" client0 "''u1''"]
        UpdateUser_timestamp_cases
          [of update_nil "stub_world (replying 200 ''1'')" client0 "''u1''"]
        UpdateUser_timestamp_cases
          [of update0 "stub_world (replying 200 ''1'')" client0 "''u1''"]
  by (simp add: update_ignore_def update_nil_def update0_def IgnoreTime_def stub_world_def)

text \<open>
  Claim C8: the request object that \<^verbatim>\<open>UnionUser\<close> submits has no keys but \<^verbatim>\<open>$token\<close>,
  \<^verbatim>\<open>$distinct_id\<close> and the key named by \<^verbatim>\<open>update.Operation\<close>, which holds
  \<^verbatim>\<open>update.Properties\<close>; the other two hold the token and the user id unless the operation
  key has taken their place; and the \<^verbatim>\<open>IP\<close> and \<^verbatim>\<open>Timestamp\<close> of the update change nothing,
  neither in the payload nor in the result.
\<close>

theorem UnionUser_payload_minimal:
  "UnionUser w m userID (Some u) =
     sendPost w m ''engage#profile-union'' (GMap (UnionUser_params m userID u)) \<and>
   fst ` set (UnionUser_params m userID u) = {''$token'', ''$distinct_id'', Operation u} \<and>
   map_of (UnionUser_params m userID u) (Operation u) = Some (GMap (Properties u)) \<and>
   (Operation u \<noteq> ''$token'' \<longrightarrow>
      map_of (UnionUser_params m userID u) ''$token'' = Some (GString (Token m))) \<and>
   (Operation u \<noteq> ''$distinct_id'' \<longrightarrow>
      map_of (UnionUser_params m userID u) ''$distinct_id'' = Some (GString userID)) \<and>
   UnionUser_params m userID (u\<lparr>IP := ip, Timestamp := ts\<rparr>) = UnionUser_params m userID u \<and>
   UnionUser w m userID (Some (u\<lparr>IP := ip, Timestamp := ts\<rparr>)) = UnionUser w m userID (Some u)"
  by (auto simp: UnionUser_def UnionUser_params_def Let_def map_of_assign keys_assign)

theorem UnionUser_payload_minimal_witness:
  "fst ` set (UnionUser_params client0 ''u2'' update0) = {''$token'', ''$distinct_id'', ''$set''} \<and>
   map_of (UnionUser_params client0 ''u2'' update0) ''$set''
     = Some (GMap [(''plan'', GString ''pro'')]) \<and>
   map_of (UnionUser_params client0 ''u2'' update0) ''$token'' = Some (GString ''tok'') \<and>
   map_of (UnionUser_params client0 ''u2'' update0) ''$distinct_id'' = Some (GString ''u2'') \<and>
   UnionUser (stub_world (replying 200 ''1'')) client0 ''u2''
     (Some (update0\<lparr>IP := '''', Timestamp := None\<rparr>))
     = UnionUser (stub_world (replying 200 ''1'')) client0 ''u2'' (Some update0)"
  using UnionUser_payload_minimal
          [where w = "stub_world (replying 200 ''1'')" and m = client0 and userID = "''u2''"
             and u = update0 and ip = "''''" and ts = None]
  by (simp add: update0_def client0_def NewFromClient_def)

subsection \<open>The stored client\<close>

text \<open>
  Claim C10: two clients built by \<^verbatim>\<open>NewFromClient\<close> that differ only in the
  \<^verbatim>\<open>http.Client\<close> given behave alike in every operation, on the same inputs and in the same
  world: request posted and result are the same. The \<^verbatim>\<open>Client\<close> field is never read; the
  request goes through the package-default client of \<^verbatim>\<open>http.Post\<close>.
\<close>

theorem Client_field_never_consulted:
  "Track w (NewFromClient c token apiURL) distinctId eventName e =
     Track w (NewFromClient c' token apiURL) distinctId eventName e \<and>
   UpdateUser w (NewFromClient c token apiURL) distinctId u =
     UpdateUser w (NewFromClient c' token apiURL) distinctId u \<and>
   UnionUser w (NewFromClient c token apiURL) userID u =
     UnionUser w (NewFromClient c' token apiURL) userID u \<and>
   UpdateGroup w (NewFromClient c token apiURL) groupKey groupId u =
     UpdateGroup w (NewFromClient c' token apiURL) groupKey groupId u \<and>
   UnionGroup w (NewFromClient c token apiURL) groupKey groupId u =
     UnionGroup w (NewFromClient c' token apiURL) groupKey groupId u \<and>
   Alias w (NewFromClient c token apiURL) distinctId newId =
     Alias w (NewFromClient c' token apiURL) distinctId newId"
proof -
  have tok: "Token (NewFromClient c token apiURL) = Token (NewFromClient c' token apiURL)"
    and url: "ApiURL (NewFromClient c token apiURL) = ApiURL (NewFromClient c' token apiURL)"
    by (simp_all add: NewFromClient_def)
  note sp = sendPost_same_client [OF url]
  show ?thesis
    by (simp add: Track_def Track_props_def UpdateUser_def UpdateUser_params_def UnionUser_def
        UnionUser_params_def UpdateGroup_def UnionGroup_def Alias_def Let_def sp tok
        split: option.split)
qed

text \<open>
  At a concrete point: the client was given a transport that would answer \<^verbatim>\<open>1\<close>, the
  package default answers \<^verbatim>\<open>0\<close>, and the call fails as it does for a client given no
  transport at all.
\<close>

theorem Client_field_never_consulted_witness:
  "Track (stub_world (replying 200 ''0''))
     (NewFromClient (Some (replying 200 ''1'')) ''tok'' '''') ''u1'' ''signup'' (Some event0)
   = Track (stub_world (replying 200 ''0''))
       (NewFromClient None ''tok'' '''') ''u1'' ''signup'' (Some event0) \<and>
   failed_not_1 ''https://api.mixpanel.com/track''
     (fst (Track (stub_world (replying 200 ''0''))
            (NewFromClient (Some (replying 200 ''1'')) ''tok'' '''') ''u1'' ''signup''
            (Some event0)))"
proof -
  have same: "Track (stub_world (replying 200 ''0''))
      (NewFromClient (Some (replying 200 ''1'')) ''tok'' '''') ''u1'' ''signup'' (Some event0)
    = Track (stub_world (replying 200 ''0''))
        (NewFromClient None ''tok'' '''') ''u1'' ''signup'' (Some event0)"
    using Client_field_never_consulted by (rule conjunct1)
  have "failed_not_1 (ApiURL (NewFromClient None ''tok'' '''') @ ''/'' @ ''track'')
     (fst (Track (stub_world (replying 200 ''0''))
            (NewFromClient None ''tok'' '''') ''u1'' ''signup'' (Some event0)))"
    unfolding Track_def option.case Let_def
    by (rule sendPost_not_ok) (simp add: reply_body_replying)
  with same show ?thesis by (simp add: NewFromClient_def)
qed

end
